theory Spec2Isabelle
  imports Main "HOL-Library.Sublist" "HOL-Library.Product_Lexorder"
begin

section \<open>TensorBoard notebook utilities (tensorboard/notebook.py)\<close>

text \<open>
  A shallow embedding of \<^verbatim>\<open>tensorboard/notebook.py\<close>: the launch reaction of
  \<^verbatim>\<open>start\<close>, the instance selection and rendering dispatch of \<^verbatim>\<open>_display\<close>, the
  listing of \<^verbatim>\<open>list\<close> and the two formatting helpers. Python names with a leading
  underscore lose it (\<^verbatim>\<open>_display_cli\<close> is \<open>display_cli\<close>); \<^verbatim>\<open>_display\<close> is
  \<open>display_internal\<close>, next to the public \<open>display\<close>, and \<^verbatim>\<open>list\<close> is \<open>list_cmd\<close>, since
  \<open>list\<close> is the type of lists.
  A \<open>string\<close> is a sequence of characters with codes below 256.
\<close>

subsection \<open>Python string formatting\<close>

text \<open>The conversions \<^verbatim>\<open>%d\<close> and \<^verbatim>\<open>{name}\<close> applied to a Python \<^verbatim>\<open>int\<close>: decimal digits,
  a leading minus sign for a negative number. \<open>digit_char\<close> is applied to numbers below 10 only.\<close>

definition digit_char :: "nat \<Rightarrow> char" where
  "digit_char n = ''0123456789'' ! n"

fun str_nat :: "nat \<Rightarrow> string" where
  "str_nat n = (if n < 10 then [digit_char n] else str_nat (n div 10) @ [digit_char (n mod 10)])"

declare str_nat.simps [simp del]

definition str_int :: "int \<Rightarrow> string" where
  "str_int i = (if i < 0 then CHR ''-'' # str_nat (nat (- i)) else str_nat (nat i))"

text \<open>The conversion \<^verbatim>\<open>%02d\<close>: at least two characters, padded with zeros on the left.
  The sign counts in the width, so a negative number is never padded.\<close>

definition str_int_02 :: "int \<Rightarrow> string" where
  "str_int_02 i =
     (if i < 0 then CHR ''-'' # str_nat (nat (- i))
      else (if i < 10 then ''0'' else []) @ str_nat (nat i))"

text \<open>\<^verbatim>\<open>str.strip()\<close>: whitespace removed at both ends. The whitespace characters of a
  Python 3 \<^verbatim>\<open>str\<close> with codes below 256 are 0x09 to 0x0D, 0x1C to 0x20, 0x85 and 0xA0.\<close>

definition is_space :: "char \<Rightarrow> bool" where
  "is_space c =
     (let n = (of_char c :: nat)
      in (9 \<le> n \<and> n \<le> 13) \<or> (28 \<le> n \<and> n \<le> 32) \<or> n = 133 \<or> n = 160)"

definition strip :: "string \<Rightarrow> string" where
  "strip s = rev (dropWhile is_space (rev (dropWhile is_space s)))"

subsection \<open>Python errors\<close>

datatype py_error =
    ValueError string
  | TypeError string
  | NotImplementedError

text \<open>\<^verbatim>\<open>max(xs, key=f)\<close>: the first element whose key no later element exceeds; an empty
  argument raises \<^verbatim>\<open>ValueError\<close>.\<close>

fun max_from :: "('a \<Rightarrow> 'k::linorder) \<Rightarrow> 'a \<Rightarrow> 'a list \<Rightarrow> 'a" where
  "max_from key best [] = best"
| "max_from key best (x # xs) = max_from key (if key best < key x then x else best) xs"

definition py_max :: "('a \<Rightarrow> 'k::linorder) \<Rightarrow> 'a list \<Rightarrow> py_error + 'a" where
  "py_max key xs =
     (case xs of
        [] \<Rightarrow> Inl (ValueError ''max() arg is an empty sequence'')
      | x # rest \<Rightarrow> Inr (max_from key x rest))"

subsection \<open>datetime and timedelta\<close>

text \<open>
  A naive \<^verbatim>\<open>datetime.datetime\<close>: the date is carried as its proleptic Gregorian ordinal
  (\<^verbatim>\<open>toordinal()\<close>), the time of day by its four fields. Two datetimes compare as the
  tuples of their fields do.
\<close>

record datetime =
  ordinal :: int
  hour :: int
  minute :: int
  second :: int
  microsecond :: int

definition datetime_key :: "datetime \<Rightarrow> int \<times> int \<times> int \<times> int \<times> int" where
  "datetime_key d = (ordinal d, hour d, minute d, second d, microsecond d)"

text \<open>\<^verbatim>\<open>d.replace(microsecond=0)\<close>.\<close>

definition replace_microsecond_0 :: "datetime \<Rightarrow> datetime" where
  "replace_microsecond_0 d = d\<lparr>microsecond := 0\<rparr>"

text \<open>A \<^verbatim>\<open>datetime.timedelta\<close> is normalised by its constructor: seconds in
  \<open>0 ..< 86400\<close>, microseconds in \<open>0 ..< 1000000\<close>, the days carry the sign. (The
  difference of two datetimes is always within the range of days a timedelta allows.)\<close>

record timedelta =
  td_days :: int
  td_seconds :: int
  td_microseconds :: int

definition timedelta_new :: "int \<Rightarrow> int \<Rightarrow> int \<Rightarrow> timedelta" where
  "timedelta_new d s us =
     (let s1 = s + us div 1000000;
          us1 = us mod 1000000;
          d1 = d + s1 div 86400;
          s2 = s1 mod 86400
      in \<lparr>td_days = d1, td_seconds = s2, td_microseconds = us1\<rparr>)"

text \<open>\<^verbatim>\<open>datetime.__sub__\<close> for two naive datetimes.\<close>

definition datetime_sub :: "datetime \<Rightarrow> datetime \<Rightarrow> timedelta" where
  "datetime_sub a b =
     (let secs1 = second a + minute a * 60 + hour a * 3600;
          secs2 = second b + minute b * 60 + hour b * 3600
      in timedelta_new (ordinal a - ordinal b) (secs1 - secs2) (microsecond a - microsecond b))"

text \<open>\<^verbatim>\<open>timedelta.__str__\<close>: \<^verbatim>\<open>[D day[s], ]H:MM:SS[.UUUUUU]\<close>.\<close>

definition str_microseconds :: "int \<Rightarrow> string" where
  "str_microseconds us =
     (let ds = str_nat (nat us) in replicate (6 - length ds) CHR ''0'' @ ds)"

definition timedelta_str :: "timedelta \<Rightarrow> string" where
  "timedelta_str t =
     (let mm = td_seconds t div 60;
          ss = td_seconds t mod 60;
          hh = mm div 60;
          mm1 = mm mod 60;
          s = str_int hh @ '':'' @ str_int_02 mm1 @ '':'' @ str_int_02 ss;
          s1 = (if td_days t \<noteq> 0
                then str_int (td_days t) @ '' day'' @ (if \<bar>td_days t\<bar> \<noteq> 1 then ''s'' else [])
                     @ '', '' @ s
                else s)
      in if td_microseconds t \<noteq> 0 then s1 @ ''.'' @ str_microseconds (td_microseconds t)
         else s1)"

subsection \<open>The supervisor's values (tensorboard/manager.py)\<close>

text \<open>
  Modelled from the spec: \<^verbatim>\<open>manager.TensorboardInfo\<close>, declared in
  \<^verbatim>\<open>tensorboard/manager.py\<close>. The record has the fields that \<^verbatim>\<open>notebook.py\<close> reads: the
  spec's Instance Info with \<open>port\<close>, \<open>pid\<close> and \<open>start_time\<close>, and its data source as
  the two strings \<open>db\<close> and \<open>logdir\<close> that the code tests.
\<close>

record tensorboard_info =
  port :: int
  pid :: int
  start_time :: datetime
  db :: string
  logdir :: string

text \<open>
  A Python object that is none of the four result classes, as far as \<^verbatim>\<open>"...%r..." % obj\<close>
  can tell objects apart: a tuple (a \<^verbatim>\<open>namedtuple\<close> is one) with the \<^verbatim>\<open>repr\<close> of each
  element, or any other object with its \<^verbatim>\<open>repr\<close>.
\<close>

datatype py_object =
    PyTuple "string list"
  | PyOther string

text \<open>
  Modelled from the spec: the result classes of \<^verbatim>\<open>manager.start\<close>, declared in
  \<^verbatim>\<open>tensorboard/manager.py\<close>: the spec's Launch Outcome, with the fields \<^verbatim>\<open>start\<close> reads.
  \<open>StartFailed\<close> carries \<open>exit_code\<close>, \<open>stdout\<close> and \<open>stderr\<close>, a stream being \<open>None\<close> when it
  could not be read. \<open>StartUnexpected\<close> is a result that is an instance of none of the four
  classes, which Python does not exclude.
\<close>

datatype start_result =
    StartLaunched tensorboard_info
  | StartReused tensorboard_info
  | StartFailed int "string option" "string option"
  | StartTimedOut int
  | StartUnexpected py_object

subsection \<open>Environment and effects\<close>

text \<open>The three values of \<^verbatim>\<open>_get_context()\<close>.\<close>

datatype notebook_context = CONTEXT_COLAB | CONTEXT_IPYTHON | CONTEXT_NONE

text \<open>
  What the module consults outside itself. \<open>get_context\<close> is the value of
  \<^verbatim>\<open>_get_context()\<close>, which depends on the importable modules only. \<open>get_all\<close> and \<open>now\<close>
  give the result of the \<open>n\<close>-th call (from 0) of \<^verbatim>\<open>manager.get_all()\<close> and of
  \<^verbatim>\<open>datetime.datetime.now()\<close>: two calls need not agree. \<open>shlex_split\<close> is
  \<^verbatim>\<open>shlex.split(s, comments=True, posix=True)\<close>, which raises \<^verbatim>\<open>ValueError\<close> on an
  unbalanced quotation; \<open>manager_start\<close> is \<^verbatim>\<open>manager.start\<close>.
\<close>

record env =
  get_context :: notebook_context
  get_all :: "nat \<Rightarrow> tensorboard_info list"
  now :: "nat \<Rightarrow> datetime"
  shlex_split :: "string \<Rightarrow> py_error + string list"
  manager_start :: "string list \<Rightarrow> start_result"

text \<open>
  What the user sees, in order: a line printed, an object shown by
  \<^verbatim>\<open>IPython.display.display\<close> (the flag is \<^verbatim>\<open>display_id=True\<close>, which makes the call return a
  handle), and the object of a handle replaced by \<^verbatim>\<open>handle.update\<close>. A handle is the position
  in the output of the \<open>Display\<close> that made it.
\<close>

datatype display_object =
    Pretty string
  | IFrame string int string

datatype event =
    Print string
  | Display display_object bool
  | Update nat display_object

record world =
  out :: "event list"
  get_all_calls :: nat
  now_calls :: nat

type_synonym 'a io = "world \<Rightarrow> (py_error + 'a) \<times> world"

definition emit :: "event \<Rightarrow> world \<Rightarrow> world" where
  "emit e w = w\<lparr>out := out w @ [e]\<rparr>"

definition call_get_all :: "env \<Rightarrow> world \<Rightarrow> tensorboard_info list \<times> world" where
  "call_get_all E w = (get_all E (get_all_calls w), w\<lparr>get_all_calls := Suc (get_all_calls w)\<rparr>)"

definition call_now :: "env \<Rightarrow> world \<Rightarrow> datetime \<times> world" where
  "call_now E w = (now E (now_calls w), w\<lparr>now_calls := Suc (now_calls w)\<rparr>)"

subsection \<open>Formatting helpers\<close>

text \<open>\<^verbatim>\<open>_time_delta_from_info\<close>.\<close>

definition time_delta_from_info :: "env \<Rightarrow> tensorboard_info \<Rightarrow> world \<Rightarrow> string \<times> world" where
  "time_delta_from_info E info w =
     (let (now_v, w1) = call_now E w;
          then_v = start_time info
      in (timedelta_str (datetime_sub (replace_microsecond_0 now_v) (replace_microsecond_0 then_v)),
          w1))"

text \<open>\<^verbatim>\<open>_data_source_from_info\<close>; a Python string is true when it is not empty.\<close>

definition data_source_from_info :: "tensorboard_info \<Rightarrow> string" where
  "data_source_from_info info =
     (if db info \<noteq> [] then ''db '' @ db info else ''logdir '' @ logdir info)"

subsection \<open>Rendering\<close>

text \<open>\<^verbatim>\<open>_display_colab\<close>, \<^verbatim>\<open>_display_ipython\<close>, \<^verbatim>\<open>_display_cli\<close>.\<close>

definition display_colab :: "int \<Rightarrow> int \<Rightarrow> nat option \<Rightarrow> unit io" where
  "display_colab p height display_handle w = (Inl NotImplementedError, w)"

definition display_ipython :: "int \<Rightarrow> int \<Rightarrow> nat option \<Rightarrow> unit io" where
  "display_ipython p height display_handle w =
     (let iframe = IFrame (''http://localhost:'' @ str_int p) height ''100%''
      in case display_handle of
           Some h \<Rightarrow> (Inr (), emit (Update h iframe) w)
         | None \<Rightarrow> (Inr (), emit (Display iframe False) w))"

definition display_cli :: "int \<Rightarrow> int \<Rightarrow> nat option \<Rightarrow> unit io" where
  "display_cli p height display_handle w =
     (let message = ''Please navigate to http://localhost:'' @ str_int p @ '' in a web browser.''
      in (Inr (), emit (Print message) w))"

text \<open>The dictionary lookup at the end of \<^verbatim>\<open>_display\<close>.\<close>

definition display_fn :: "notebook_context \<Rightarrow> int \<Rightarrow> int \<Rightarrow> nat option \<Rightarrow> unit io" where
  "display_fn c =
     (case c of
        CONTEXT_COLAB \<Rightarrow> display_colab
      | CONTEXT_IPYTHON \<Rightarrow> display_ipython
      | CONTEXT_NONE \<Rightarrow> display_cli)"

subsection \<open>Selection and display\<close>

text \<open>
  The selection of \<^verbatim>\<open>_display\<close> (the \<^verbatim>\<open>if port is None\<close> statement): the chosen info, if
  any, and the port to render.
\<close>

definition display_select :: "env \<Rightarrow> int option \<Rightarrow> (tensorboard_info option \<times> int) io" where
  "display_select E port_arg w =
     (case port_arg of
        None \<Rightarrow>
          (let (infos, w1) = call_get_all E w
           in if infos = []
              then (Inl (ValueError ''Can't display TensorBoard: no known instances running.''), w1)
              else (let (again, w2) = call_get_all E w1
                    in case py_max (\<lambda>x. datetime_key (start_time x)) again of
                         Inl e \<Rightarrow> (Inl e, w2)
                       | Inr info \<Rightarrow> (Inr (Some info, port info), w2)))
      | Some p \<Rightarrow>
          (let (all_infos, w1) = call_get_all E w;
               infos = filter (\<lambda>i. port i = p) all_infos
           in if infos \<noteq> []
              then (case py_max (\<lambda>x. datetime_key (start_time x)) infos of
                      Inl e \<Rightarrow> (Inl e, w1)
                    | Inr info \<Rightarrow> (Inr (Some info, p), w1))
              else (Inr (None, p), w1)))"

text \<open>The message of \<^verbatim>\<open>_display\<close> when \<^verbatim>\<open>print_message\<close> holds and an info was selected.\<close>

definition selecting_message :: "string \<Rightarrow> string \<Rightarrow> int \<Rightarrow> int \<Rightarrow> string" where
  "selecting_message data_source delta p pid_v =
     ''Selecting TensorBoard with '' @ data_source @ '' (started '' @ delta @ '' ago; port ''
     @ str_int p @ '', pid '' @ str_int pid_v @ '').''"

text \<open>\<^verbatim>\<open>_display\<close>.\<close>

definition display_internal ::
  "env \<Rightarrow> int option \<Rightarrow> int option \<Rightarrow> bool \<Rightarrow> nat option \<Rightarrow> unit io" where
  "display_internal E port_arg height_arg print_message display_handle w =
     (let height = (case height_arg of None \<Rightarrow> 600 | Some h \<Rightarrow> h)
      in case display_select E port_arg w of
           (Inl e, w1) \<Rightarrow> (Inl e, w1)
         | (Inr (info_opt, p), w1) \<Rightarrow>
             (let w2 =
                (if print_message
                 then (case info_opt of
                         Some info \<Rightarrow>
                           (let data_source = data_source_from_info info;
                                (delta, w') = time_delta_from_info E info w1
                            in emit (Print (selecting_message data_source delta (port info)
                                              (pid info))) w')
                       | None \<Rightarrow> w1)
                 else w1)
              in display_fn (get_context E) p height display_handle w2))"

text \<open>\<^verbatim>\<open>display\<close>.\<close>

definition display :: "env \<Rightarrow> int option \<Rightarrow> int option \<Rightarrow> unit io" where
  "display E port_arg height_arg = display_internal E port_arg height_arg True None"

subsection \<open>Listing\<close>

definition list_line :: "int \<Rightarrow> string \<Rightarrow> string \<Rightarrow> int \<Rightarrow> string" where
  "list_line p data_source delta pid_v =
     ''  - port '' @ str_int p @ '': '' @ data_source @ '' (started '' @ delta @ '' ago; pid ''
     @ str_int pid_v @ '')''"

text \<open>The \<^verbatim>\<open>for\<close> loop of \<^verbatim>\<open>list\<close>.\<close>

fun list_loop :: "env \<Rightarrow> tensorboard_info list \<Rightarrow> world \<Rightarrow> world" where
  "list_loop E [] w = w"
| "list_loop E (info # infos) w =
     (let data_source = data_source_from_info info;
          (delta, w1) = time_delta_from_info E info w
      in list_loop E infos (emit (Print (list_line (port info) data_source delta (pid info))) w1))"

text \<open>\<^verbatim>\<open>list\<close>.\<close>

definition list_cmd :: "env \<Rightarrow> unit io" where
  "list_cmd E w =
     (let (infos, w1) = call_get_all E w
      in if infos = []
         then (Inr (), emit (Print ''No known TensorBoard instances running.'') w1)
         else (Inr (), list_loop E infos (emit (Print ''Known TensorBoard instances:'') w1)))"

subsection \<open>Launching\<close>

text \<open>The local function \<^verbatim>\<open>print_or_update\<close> of \<^verbatim>\<open>start\<close>.\<close>

definition print_or_update :: "nat option \<Rightarrow> string \<Rightarrow> world \<Rightarrow> world" where
  "print_or_update handle message w =
     (case handle of
        None \<Rightarrow> emit (Print message) w
      | Some h \<Rightarrow> emit (Update h (Pretty message)) w)"

text \<open>The local function \<^verbatim>\<open>format_stream\<close> of \<^verbatim>\<open>start\<close>.\<close>

definition format_stream :: "string \<Rightarrow> string option \<Rightarrow> string" where
  "format_stream name v =
     (if v = Some [] then []
      else case v of
             None \<Rightarrow> [CHR 0x0A] @ ''<could not read '' @ name @ ''>''
           | Some s \<Rightarrow> [CHR 0x0A] @ ''Contents of '' @ name @ '':'' @ [CHR 0x0A] @ strip s)"

definition reusing_message :: "int \<Rightarrow> int \<Rightarrow> string \<Rightarrow> string" where
  "reusing_message p pid_v delta =
     ''Reusing TensorBoard on port '' @ str_int p @ '' (pid '' @ str_int pid_v @ ''), started ''
     @ delta @ '' ago. (Use '!kill '' @ str_int pid_v @ ''' to kill it.)''"

definition failed_message :: "int \<Rightarrow> string option \<Rightarrow> string option \<Rightarrow> string" where
  "failed_message exit_code stdout stderr =
     ''ERROR: Failed to launch TensorBoard (exited with '' @ str_int exit_code @ '').''
     @ format_stream ''stderr'' stderr @ format_stream ''stdout'' stdout"

definition timed_out_message :: "int \<Rightarrow> string" where
  "timed_out_message pid_v =
     ''ERROR: Timed out waiting for TensorBoard to start. It may still be running as pid ''
     @ str_int pid_v @ ''.''"

text \<open>
  The operator \<^verbatim>\<open>%\<close> with the format string of the last branch of \<^verbatim>\<open>start\<close>, which has the
  one conversion \<^verbatim>\<open>%r\<close>. A tuple on the right is the argument list: of length one it
  gives its element, of any other length the operator raises \<^verbatim>\<open>TypeError\<close>.
\<close>

definition unexpected_message :: "py_object \<Rightarrow> py_error + string" where
  "unexpected_message obj =
     (let render = (\<lambda>r. ''Unexpected result from `manager.start`: '' @ r @ ''.'' @ [CHR 0x0A]
                         @ ''This is a TensorBoard bug; please report it.'')
      in case obj of
           PyOther r \<Rightarrow> Inr (render r)
         | PyTuple [] \<Rightarrow> Inl (TypeError ''not enough arguments for format string'')
         | PyTuple [r] \<Rightarrow> Inr (render r)
         | PyTuple (r # r' # rs) \<Rightarrow>
             Inl (TypeError ''not all arguments converted during string formatting''))"

text \<open>\<^verbatim>\<open>start\<close>.\<close>

definition start :: "env \<Rightarrow> string \<Rightarrow> unit io" where
  "start E args_string w =
     (let context = get_context E;
          (handle, w0) =
            (if context = CONTEXT_NONE
             then (None, emit (Print ''Launching TensorBoard...'') w)
             else (Some (length (out w)),
                   emit (Display (Pretty ''Launching TensorBoard...'') True) w))
      in case shlex_split E args_string of
           Inl e \<Rightarrow> (Inl e, w0)
         | Inr parsed_args \<Rightarrow>
             (case manager_start E parsed_args of
                StartLaunched info \<Rightarrow> display_internal E (Some (port info)) None False handle w0
              | StartReused info \<Rightarrow>
                  (let (delta, w1) = time_delta_from_info E info w0;
                       message = reusing_message (port info) (pid info) delta;
                       w2 = print_or_update handle message w1
                   in display_internal E (Some (port info)) None False None w2)
              | StartFailed exit_code stdout stderr \<Rightarrow>
                  (Inr (), print_or_update handle (failed_message exit_code stdout stderr) w0)
              | StartTimedOut pid_v \<Rightarrow>
                  (Inr (), print_or_update handle (timed_out_message pid_v) w0)
              | StartUnexpected obj \<Rightarrow>
                  (case unexpected_message obj of
                     Inl e \<Rightarrow> (Inl e, w0)
                   | Inr message \<Rightarrow> (Inl (TypeError message), w0))))"

subsection \<open>Whole seconds\<close>

text \<open>The seconds from the start of ordinal day 0 to a datetime, its microseconds left out.\<close>

definition whole_seconds :: "datetime \<Rightarrow> int" where
  "whole_seconds d = ((ordinal d * 24 + hour d) * 60 + minute d) * 60 + second d"

subsection \<open>An example environment\<close>

text \<open>
  Three known instances: a stale record and a live one on port 6006, and one with a
  database on port 6007. The clock stands at noon of day 737000.
\<close>

definition ex_now :: datetime where
  "ex_now = \<lparr>ordinal = 737000, hour = 12, minute = 0, second = 0, microsecond = 0\<rparr>"

definition ex_info_stale :: tensorboard_info where
  "ex_info_stale =
     \<lparr>port = 6006, pid = 4100,
      start_time = \<lparr>ordinal = 736990, hour = 9, minute = 30, second = 0, microsecond = 0\<rparr>,
      db = [], logdir = ''/tmp/old''\<rparr>"

definition ex_info_logdir :: tensorboard_info where
  "ex_info_logdir =
     \<lparr>port = 6006, pid = 4242,
      start_time = \<lparr>ordinal = 736998, hour = 11, minute = 11, second = 2, microsecond = 0\<rparr>,
      db = [], logdir = ''/tmp/logs''\<rparr>"

definition ex_info_db :: tensorboard_info where
  "ex_info_db =
     \<lparr>port = 6007, pid = 4300,
      start_time = \<lparr>ordinal = 737000, hour = 11, minute = 59, second = 59,
                    microsecond = 900000\<rparr>,
      db = ''conn-str'', logdir = []\<rparr>"

text \<open>\<^verbatim>\<open>shlex.split\<close> on the argument strings of the examples, none of which has a quote,
  an escape or a comment.\<close>

definition ex_shlex_split :: "string \<Rightarrow> py_error + string list" where
  "ex_shlex_split s =
     (if s = ''--logdir /tmp/logs'' then Inr [''--logdir'', ''/tmp/logs'']
      else if s = ''--logdir /missing'' then Inr [''--logdir'', ''/missing'']
      else if s = ''--logdir /slow'' then Inr [''--logdir'', ''/slow'']
      else if s = ''--logdir /odd'' then Inr [''--logdir'', ''/odd'']
      else Inr [s])"

text \<open>A supervisor that reuses the instance on \<^verbatim>\<open>/tmp/logs\<close>, fails on \<^verbatim>\<open>/missing\<close> with
  an unreadable standard output, times out on \<^verbatim>\<open>/slow\<close> and answers anything else with
  the pair \<^verbatim>\<open>(1, 2)\<close>.\<close>

definition ex_manager_start :: "string list \<Rightarrow> start_result" where
  "ex_manager_start args =
     (if args = [''--logdir'', ''/tmp/logs''] then StartReused ex_info_logdir
      else if args = [''--logdir'', ''/missing'']
      then StartFailed 2 None (Some (''E: no such directory'' @ [CHR 0x0A]))
      else if args = [''--logdir'', ''/slow''] then StartTimedOut 4400
      else StartUnexpected (PyTuple [''1'', ''2'']))"

definition ex_env :: env where
  "ex_env =
     \<lparr>get_context = CONTEXT_NONE,
      get_all = (\<lambda>n. [ex_info_stale, ex_info_logdir, ex_info_db]),
      now = (\<lambda>n. ex_now),
      shlex_split = ex_shlex_split,
      manager_start = ex_manager_start\<rparr>"

definition ex_world :: world where
  "ex_world = \<lparr>out = [], get_all_calls = 0, now_calls = 0\<rparr>"

text \<open>A discovery whose only instance exits after the first query: its record is there at
  the first call of \<^verbatim>\<open>manager.get_all()\<close> and gone from the second on.\<close>

definition ex_get_all_exiting :: "nat \<Rightarrow> tensorboard_info list" where
  "ex_get_all_exiting n = (if n = 0 then [ex_info_stale] else [])"

definition ex_env_exiting :: env where
  "ex_env_exiting = ex_env\<lparr>get_all := ex_get_all_exiting\<rparr>"

section \<open>Properties\<close>

subsection \<open>Evaluation of the string conversions\<close>

lemma str_nat_small: "n < 10 \<Longrightarrow> str_nat n = [digit_char n]"
  by (simp add: str_nat.simps)

lemma str_nat_large: "10 \<le> n \<Longrightarrow> str_nat n = str_nat (n div 10) @ [digit_char (n mod 10)]"
  by (subst str_nat.simps) simp

lemmas str_eval = str_int_def str_int_02_def str_nat_small str_nat_large digit_char_def

lemmas ex_defs = ex_env_def ex_world_def ex_info_stale_def ex_info_logdir_def ex_info_db_def
  ex_now_def

subsection \<open>The maximum by key\<close>

lemma max_from_mem: "max_from key b xs \<in> set (b # xs)"
  by (induction xs arbitrary: b) auto

lemma max_from_ge: "\<forall>y\<in>set (b # xs). key y \<le> key (max_from key b xs)"
proof (induction xs arbitrary: b)
  case Nil
  show ?case by simp
next
  case (Cons x xs)
  show ?case
  proof (cases "key b < key x")
    case True
    from Cons.IH [of x] have x: "key x \<le> key (max_from key x xs)"
      and r: "\<forall>y\<in>set xs. key y \<le> key (max_from key x xs)" by simp_all
    from True x have "key b \<le> key (max_from key x xs)" by simp
    with True x r show ?thesis by simp
  next
    case False
    from Cons.IH [of b] have b: "key b \<le> key (max_from key b xs)"
      and r: "\<forall>y\<in>set xs. key y \<le> key (max_from key b xs)" by simp_all
    from False b have "key x \<le> key (max_from key b xs)" by simp
    with False b r show ?thesis by simp
  qed
qed

lemma py_max_nonempty:
  assumes "xs \<noteq> []"
  shows "\<exists>m. py_max key xs = Inr m \<and> m \<in> set xs \<and> (\<forall>y\<in>set xs. key y \<le> key m)"
proof -
  from assms obtain x rest where xs: "xs = x # rest" by (cases xs) auto
  have "max_from key x rest \<in> set xs" using max_from_mem [of key x rest] xs by simp
  moreover have "\<forall>y\<in>set xs. key y \<le> key (max_from key x rest)"
    using max_from_ge [of x rest key] xs by simp
  ultimately show ?thesis by (simp add: py_max_def xs)
qed

text \<open>Among equal keys the earliest element wins: every element before the maximum has a
  strictly smaller key.\<close>

lemma max_from_first:
  "\<exists>pre post. b # xs = pre @ max_from key b xs # post
     \<and> (\<forall>y\<in>set pre. key y < key (max_from key b xs))"
proof (induction xs arbitrary: b)
  case Nil
  have "[b] = [] @ b # [] \<and> (\<forall>y\<in>set []. key y < key b)" by simp
  then show ?case unfolding max_from.simps by blast
next
  case (Cons x xs)
  show ?case
  proof (cases "key b < key x")
    case True
    define m where "m = max_from key x xs"
    have r: "max_from key b (x # xs) = m" using True by (simp add: m_def)
    from Cons.IH [of x] obtain pre post where
      e: "x # xs = pre @ m # post" and l: "\<forall>y\<in>set pre. key y < key m"
      unfolding m_def by blast
    have "key x \<le> key m" using max_from_ge [of x xs key] by (simp add: m_def)
    with True have "key b < key m" by simp
    with e l have "b # x # xs = (b # pre) @ m # post \<and> (\<forall>y\<in>set (b # pre). key y < key m)"
      by simp
    then show ?thesis unfolding r by blast
  next
    case False
    define m where "m = max_from key b xs"
    have r: "max_from key b (x # xs) = m" using False by (simp add: m_def)
    from Cons.IH [of b] obtain pre post where
      e: "b # xs = pre @ m # post" and l: "\<forall>y\<in>set pre. key y < key m"
      unfolding m_def by blast
    show ?thesis
    proof (cases pre)
      case Nil
      with e have "m = b" by simp
      then have "b # x # xs = [] @ m # (x # xs) \<and> (\<forall>y\<in>set []. key y < key m)" by simp
      then show ?thesis unfolding r by blast
    next
      case (Cons c pre')
      with e have c: "c = b" and xs: "xs = pre' @ m # post" by simp_all
      from l Cons c have "key b < key m" by simp
      with False have "key x < key m" by simp
      with l Cons c xs have
        "b # x # xs = (b # x # pre') @ m # post \<and> (\<forall>y\<in>set (b # x # pre'). key y < key m)"
        by simp
      then show ?thesis unfolding r by blast
    qed
  qed
qed

subsection \<open>Data-source formatting\<close>

text \<open>
  Claim C8. For every info, \<open>data_source_from_info\<close> returns \<^verbatim>\<open>"db "\<close> followed by the
  connection string when the info has a database (a non-empty \<open>db\<close>), and \<^verbatim>\<open>"logdir "\<close>
  followed by the path otherwise.
\<close>
theorem data_source_formatting:
  "(db info \<noteq> [] \<longrightarrow> data_source_from_info info = ''db '' @ db info)
   \<and> (db info = [] \<longrightarrow> data_source_from_info info = ''logdir '' @ logdir info)"
  by (simp add: data_source_from_info_def)

text \<open>The logdir \<^verbatim>\<open>/tmp/logs\<close> renders \<^verbatim>\<open>logdir /tmp/logs\<close> and the database \<^verbatim>\<open>conn-str\<close>
  renders \<^verbatim>\<open>db conn-str\<close>.\<close>
theorem data_source_formatting_witness:
  "db ex_info_logdir = [] \<and> logdir ex_info_logdir = ''/tmp/logs''
   \<and> data_source_from_info ex_info_logdir = ''logdir /tmp/logs''
   \<and> db ex_info_db = ''conn-str''
   \<and> data_source_from_info ex_info_db = ''db conn-str''"
  using data_source_formatting [of ex_info_logdir] data_source_formatting [of ex_info_db]
  by (simp add: ex_info_logdir_def ex_info_db_def)

subsection \<open>Rendering in Colab\<close>

text \<open>
  Claim C9. In the Colab context the rendering dispatch raises \<^verbatim>\<open>NotImplementedError\<close> and
  shows nothing: no URL is printed and no frame is displayed. Hence \<^verbatim>\<open>_display\<close> raises it
  whenever its selection succeeds.
\<close>
theorem colab_not_implemented:
  "display_fn CONTEXT_COLAB p height dh w = (Inl NotImplementedError, w)
   \<and> (get_context E = CONTEXT_COLAB \<and> display_select E port_arg w' = (Inr sel, w1)
        \<longrightarrow> fst (display_internal E port_arg height_arg print_message dh' w')
            = Inl NotImplementedError)"
  by (simp add: display_internal_def display_fn_def display_colab_def Let_def
      split: prod.splits sum.splits)

theorem colab_not_implemented_witness:
  "get_context (ex_env\<lparr>get_context := CONTEXT_COLAB\<rparr>) = CONTEXT_COLAB
   \<and> display_select (ex_env\<lparr>get_context := CONTEXT_COLAB\<rparr>) (Some 6007) ex_world
       = (Inr (Some ex_info_db, 6007), ex_world\<lparr>get_all_calls := 1\<rparr>)
   \<and> fst (display_internal (ex_env\<lparr>get_context := CONTEXT_COLAB\<rparr>) (Some 6007) None True None
            ex_world) = Inl NotImplementedError"
proof -
  have s: "display_select (ex_env\<lparr>get_context := CONTEXT_COLAB\<rparr>) (Some 6007) ex_world
       = (Inr (Some ex_info_db, 6007), ex_world\<lparr>get_all_calls := 1\<rparr>)"
    by (simp add: display_select_def call_get_all_def ex_env_def ex_world_def py_max_def
        ex_info_stale_def ex_info_logdir_def ex_info_db_def)
  with colab_not_implemented
    [of _ _ _ _ "ex_env\<lparr>get_context := CONTEXT_COLAB\<rparr>" "Some 6007" ex_world
        "(Some ex_info_db, 6007)" "ex_world\<lparr>get_all_calls := 1\<rparr>" None True None]
  show ?thesis by simp
qed

subsection \<open>An explicit port that no record has\<close>

text \<open>
  Claim C3. When no discovered record has the explicit port, the selection is \<open>None\<close> and
  raises nothing, nothing is printed about an instance, and \<^verbatim>\<open>_display\<close> is the rendering
  dispatch on the given port, with the given height or 600.
\<close>
theorem explicit_port_without_record:
  assumes "filter (\<lambda>i. port i = p) (get_all E (get_all_calls w)) = []"
  shows "display_select E (Some p) w = (Inr (None, p), w\<lparr>get_all_calls := Suc (get_all_calls w)\<rparr>)
    \<and> display_internal E (Some p) height_arg print_message dh w =
        display_fn (get_context E) p (case height_arg of None \<Rightarrow> 600 | Some h \<Rightarrow> h) dh
          (w\<lparr>get_all_calls := Suc (get_all_calls w)\<rparr>)"
  using assms by (simp add: display_internal_def display_select_def call_get_all_def)

theorem explicit_port_without_record_witness:
  "filter (\<lambda>i. port i = 7000) (get_all ex_env (get_all_calls ex_world)) = []
   \<and> display_select ex_env (Some 7000) ex_world = (Inr (None, 7000), ex_world\<lparr>get_all_calls := 1\<rparr>)
   \<and> display ex_env (Some 7000) None ex_world =
       (Inr (), ex_world\<lparr>out := [Print ''Please navigate to http://localhost:7000 in a web browser.''],
                         get_all_calls := 1\<rparr>)
   \<and> display (ex_env\<lparr>get_context := CONTEXT_IPYTHON\<rparr>) (Some 7000) (Some 400) ex_world =
       (Inr (), ex_world\<lparr>out := [Display (IFrame ''http://localhost:7000'' 400 ''100%'') False],
                         get_all_calls := 1\<rparr>)"
proof -
  have f: "filter (\<lambda>i. port i = 7000) (get_all ex_env (get_all_calls ex_world)) = []"
    by (simp add: ex_env_def ex_world_def ex_info_stale_def ex_info_logdir_def ex_info_db_def)
  have f': "filter (\<lambda>i. port i = 7000)
      (get_all (ex_env\<lparr>get_context := CONTEXT_IPYTHON\<rparr>) (get_all_calls ex_world)) = []"
    using f by simp
  show ?thesis
    using f explicit_port_without_record [OF f, of None True None]
      explicit_port_without_record [OF f', of "Some 400" True None]
    by (simp add: display_def display_fn_def display_cli_def display_ipython_def emit_def
        ex_env_def ex_world_def str_eval)
qed

subsection \<open>No known instances\<close>

text \<open>
  Claim C4. When discovery returns nothing, \<^verbatim>\<open>display\<close> without a port raises the
  \<^verbatim>\<open>ValueError\<close> "no known instances running", while \<^verbatim>\<open>list\<close> prints the one line
  "No known TensorBoard instances running." and returns: nothing else is printed and the
  clock, which every formatted line reads, is not consulted.
\<close>
theorem no_known_instances:
  assumes "get_all E (get_all_calls w) = []"
  shows "display E None height_arg w =
      (Inl (ValueError ''Can't display TensorBoard: no known instances running.''),
       w\<lparr>get_all_calls := Suc (get_all_calls w)\<rparr>)
    \<and> list_cmd E w =
      (Inr (), w\<lparr>out := out w @ [Print ''No known TensorBoard instances running.''],
                 get_all_calls := Suc (get_all_calls w)\<rparr>)"
  using assms
  by (simp add: display_def display_internal_def display_select_def call_get_all_def
      list_cmd_def emit_def)

theorem no_known_instances_witness:
  "get_all (ex_env\<lparr>get_all := \<lambda>n. []\<rparr>) (get_all_calls ex_world) = []
   \<and> display (ex_env\<lparr>get_all := \<lambda>n. []\<rparr>) None None ex_world =
      (Inl (ValueError ''Can't display TensorBoard: no known instances running.''),
       ex_world\<lparr>get_all_calls := 1\<rparr>)
   \<and> list_cmd (ex_env\<lparr>get_all := \<lambda>n. []\<rparr>) ex_world =
      (Inr (), ex_world\<lparr>out := [Print ''No known TensorBoard instances running.''],
                 get_all_calls := 1\<rparr>)"
  using no_known_instances [of "ex_env\<lparr>get_all := \<lambda>n. []\<rparr>" ex_world None]
  by (simp add: ex_world_def)

subsection \<open>Selection\<close>

text \<open>Without a port, once the first discovery result is not empty, the selection is the
  maximum over the result of a second query.\<close>
lemma portless_selection_unfold:
  assumes "get_all E (get_all_calls w) \<noteq> []"
  shows "display_select E None w =
     (case py_max (\<lambda>x. datetime_key (start_time x)) (get_all E (Suc (get_all_calls w))) of
        Inl e \<Rightarrow> (Inl e, w\<lparr>get_all_calls := get_all_calls w + 2\<rparr>)
      | Inr info \<Rightarrow> (Inr (Some info, port info), w\<lparr>get_all_calls := get_all_calls w + 2\<rparr>))"
  using assms by (simp add: display_select_def call_get_all_def split: sum.splits)

text \<open>The second result is not tested: when it is empty, \<^verbatim>\<open>max\<close> raises.\<close>
lemma portless_selection_unguarded:
  assumes "get_all E (get_all_calls w) \<noteq> []" and "get_all E (Suc (get_all_calls w)) = []"
  shows "display_select E None w =
     (Inl (ValueError ''max() arg is an empty sequence''),
      w\<lparr>get_all_calls := get_all_calls w + 2\<rparr>)"
  using assms by (simp add: portless_selection_unfold py_max_def)

text \<open>
  Claim C10. A selection without a port queries discovery twice: the first result is tested
  for emptiness, the maximum is taken over the second. When both queries return the same
  non-empty sequence, the maximum is not taken over an empty sequence (it returns an info) and
  the selected info belongs to the sequence that was tested.
\<close>
theorem portless_selection_queries_twice:
  assumes "get_all E (get_all_calls w) \<noteq> []"
    and "get_all E (Suc (get_all_calls w)) = get_all E (get_all_calls w)"
  shows "\<exists>info. display_select E None w =
            (Inr (Some info, port info), w\<lparr>get_all_calls := get_all_calls w + 2\<rparr>)
          \<and> py_max (\<lambda>x. datetime_key (start_time x)) (get_all E (Suc (get_all_calls w)))
              = Inr info
          \<and> info \<in> set (get_all E (get_all_calls w))"
proof -
  from assms have "get_all E (Suc (get_all_calls w)) \<noteq> []" by simp
  from py_max_nonempty [OF this, of "\<lambda>x. datetime_key (start_time x)"]
  obtain m where m: "py_max (\<lambda>x. datetime_key (start_time x))
      (get_all E (Suc (get_all_calls w))) = Inr m"
    and mem: "m \<in> set (get_all E (Suc (get_all_calls w)))" by blast
  from m have "display_select E None w =
      (Inr (Some m, port m), w\<lparr>get_all_calls := get_all_calls w + 2\<rparr>)"
    by (simp add: portless_selection_unfold [OF assms(1)])
  with m mem assms(2) show ?thesis by auto
qed

theorem portless_selection_queries_twice_witness:
  "get_all ex_env (get_all_calls ex_world) \<noteq> []
   \<and> get_all ex_env (Suc (get_all_calls ex_world)) = get_all ex_env (get_all_calls ex_world)
   \<and> display_select ex_env None ex_world
       = (Inr (Some ex_info_db, 6007), ex_world\<lparr>get_all_calls := 2\<rparr>)
   \<and> ex_info_db \<in> set (get_all ex_env (get_all_calls ex_world))"
proof -
  have a: "get_all ex_env (get_all_calls ex_world) \<noteq> []" by (simp add: ex_env_def)
  have b: "get_all ex_env (Suc (get_all_calls ex_world)) = get_all ex_env (get_all_calls ex_world)"
    by (simp add: ex_env_def)
  have c: "py_max (\<lambda>x. datetime_key (start_time x)) (get_all ex_env (Suc (get_all_calls ex_world)))
      = Inr ex_info_db"
    by (simp add: py_max_def datetime_key_def ex_defs)
  from portless_selection_queries_twice [OF a b] c
  have "display_select ex_env None ex_world
       = (Inr (Some ex_info_db, port ex_info_db), ex_world\<lparr>get_all_calls := get_all_calls ex_world + 2\<rparr>)"
    by auto
  moreover have "port ex_info_db = 6007" "get_all_calls ex_world + 2 = 2"
    by (simp_all add: ex_defs)
  moreover have "ex_info_db \<in> set (get_all ex_env (get_all_calls ex_world))"
    by (simp add: ex_env_def)
  ultimately show ?thesis using a b by simp
qed

text \<open>
  A non-empty candidate sequence yields a candidate of maximal \<open>start_time\<close>: with a port,
  among the discovered infos with that port, when there is one; without a port, among all
  discovered infos, provided the two queries of the selection return the same non-empty
  sequence.
\<close>
lemma selection_maximum_when_stable:
  "(get_all E (get_all_calls w) \<noteq> []
      \<and> get_all E (Suc (get_all_calls w)) = get_all E (get_all_calls w)
    \<longrightarrow> (\<exists>info. display_select E None w =
            (Inr (Some info, port info), w\<lparr>get_all_calls := get_all_calls w + 2\<rparr>)
          \<and> info \<in> set (get_all E (get_all_calls w))
          \<and> (\<forall>y\<in>set (get_all E (get_all_calls w)).
                datetime_key (start_time y) \<le> datetime_key (start_time info))))
   \<and> (filter (\<lambda>i. port i = p) (get_all E (get_all_calls w)) \<noteq> []
    \<longrightarrow> (\<exists>info. display_select E (Some p) w =
            (Inr (Some info, p), w\<lparr>get_all_calls := Suc (get_all_calls w)\<rparr>)
          \<and> info \<in> set (filter (\<lambda>i. port i = p) (get_all E (get_all_calls w)))
          \<and> (\<forall>y\<in>set (filter (\<lambda>i. port i = p) (get_all E (get_all_calls w))).
                datetime_key (start_time y) \<le> datetime_key (start_time info))))"
proof (intro conjI impI)
  assume a: "get_all E (get_all_calls w) \<noteq> []
      \<and> get_all E (Suc (get_all_calls w)) = get_all E (get_all_calls w)"
  let ?xs = "get_all E (get_all_calls w)"
  from a have ne: "?xs \<noteq> []" and same: "get_all E (Suc (get_all_calls w)) = ?xs" by simp_all
  from py_max_nonempty [OF ne, of "\<lambda>x. datetime_key (start_time x)"]
  obtain m where m: "py_max (\<lambda>x. datetime_key (start_time x)) ?xs = Inr m"
    and mem: "m \<in> set ?xs"
    and ge: "\<forall>y\<in>set ?xs. datetime_key (start_time y) \<le> datetime_key (start_time m)"
    by blast
  from m same have "display_select E None w =
      (Inr (Some m, port m), w\<lparr>get_all_calls := get_all_calls w + 2\<rparr>)"
    by (simp add: portless_selection_unfold [OF ne])
  with mem ge show "\<exists>info. display_select E None w =
            (Inr (Some info, port info), w\<lparr>get_all_calls := get_all_calls w + 2\<rparr>)
          \<and> info \<in> set ?xs
          \<and> (\<forall>y\<in>set ?xs. datetime_key (start_time y) \<le> datetime_key (start_time info))"
    by blast
next
  let ?fs = "filter (\<lambda>i. port i = p) (get_all E (get_all_calls w))"
  assume ne: "?fs \<noteq> []"
  from py_max_nonempty [OF ne, of "\<lambda>x. datetime_key (start_time x)"]
  obtain m where m: "py_max (\<lambda>x. datetime_key (start_time x)) ?fs = Inr m"
    and mem: "m \<in> set ?fs"
    and ge: "\<forall>y\<in>set ?fs. datetime_key (start_time y) \<le> datetime_key (start_time m)"
    by blast
  from m ne have "display_select E (Some p) w =
      (Inr (Some m, p), w\<lparr>get_all_calls := Suc (get_all_calls w)\<rparr>)"
    by (simp add: display_select_def call_get_all_def)
  with mem ge show "\<exists>info. display_select E (Some p) w =
            (Inr (Some info, p), w\<lparr>get_all_calls := Suc (get_all_calls w)\<rparr>)
          \<and> info \<in> set ?fs
          \<and> (\<forall>y\<in>set ?fs. datetime_key (start_time y) \<le> datetime_key (start_time info))"
    by blast
qed

lemma selection_maximum_when_stable_example:
  "get_all ex_env (get_all_calls ex_world) = [ex_info_stale, ex_info_logdir, ex_info_db]
   \<and> get_all ex_env (Suc (get_all_calls ex_world)) = get_all ex_env (get_all_calls ex_world)
   \<and> filter (\<lambda>i. port i = 6006) (get_all ex_env (get_all_calls ex_world))
       = [ex_info_stale, ex_info_logdir]
   \<and> display_select ex_env None ex_world
       = (Inr (Some ex_info_db, 6007), ex_world\<lparr>get_all_calls := 2\<rparr>)
   \<and> display_select ex_env (Some 6006) ex_world
       = (Inr (Some ex_info_logdir, 6006), ex_world\<lparr>get_all_calls := 1\<rparr>)
   \<and> datetime_key (start_time ex_info_stale) < datetime_key (start_time ex_info_logdir)
   \<and> datetime_key (start_time ex_info_logdir) < datetime_key (start_time ex_info_db)"
  using selection_maximum_when_stable [of ex_env ex_world 6006]
  by (simp add: display_select_def call_get_all_def py_max_def datetime_key_def ex_defs)

text \<open>Ties go to the earliest info in discovery order.\<close>
lemma selection_first_among_equal:
  assumes "py_max key xs = Inr m"
  shows "\<exists>pre post. xs = pre @ m # post \<and> (\<forall>y\<in>set pre. key y < key m)"
proof (cases xs)
  case Nil
  with assms show ?thesis by (simp add: py_max_def)
next
  case (Cons x rest)
  with assms have "m = max_from key x rest" by (simp add: py_max_def)
  with max_from_first [of x rest key] Cons show ?thesis by simp
qed

text \<open>
  Claim C2 asks that every selection over a non-empty discovered set returns the info of
  maximal \<open>start_time\<close>. Without a port the maximum is taken over a second query, where the
  selection with a port takes it over the list it has tested. When the only instance exits
  between the two queries, the discovered set that was tested is not empty, and the selection
  returns no info: \<^verbatim>\<open>max\<close> raises \<^verbatim>\<open>ValueError\<close> on the empty second result, and so does
  \<^verbatim>\<open>display\<close>.
\<close>
theorem portless_selection_requery_fails:
  "get_all ex_env_exiting (get_all_calls ex_world) = [ex_info_stale]
   \<and> get_all ex_env_exiting (Suc (get_all_calls ex_world)) = []
   \<and> display_select ex_env_exiting None ex_world =
       (Inl (ValueError ''max() arg is an empty sequence''), ex_world\<lparr>get_all_calls := 2\<rparr>)
   \<and> display ex_env_exiting None None ex_world =
       (Inl (ValueError ''max() arg is an empty sequence''), ex_world\<lparr>get_all_calls := 2\<rparr>)"
  by (simp add: display_def display_internal_def display_select_def call_get_all_def py_max_def
      ex_env_exiting_def ex_get_all_exiting_def ex_env_def ex_world_def)

subsection \<open>Elapsed time\<close>

lemma time_delta_value:
  "fst (time_delta_from_info E info w) =
     timedelta_str (datetime_sub ((now E (now_calls w))\<lparr>microsecond := 0\<rparr>)
                                 ((start_time info)\<lparr>microsecond := 0\<rparr>))"
  by (simp add: time_delta_from_info_def call_now_def replace_microsecond_0_def)

lemma time_delta_world:
  "snd (time_delta_from_info E info w) = w\<lparr>now_calls := Suc (now_calls w)\<rparr>"
  by (simp add: time_delta_from_info_def call_now_def)

lemma datetime_sub_whole_seconds:
  assumes "whole_seconds a - whole_seconds b = d * 86400 + s" and "0 \<le> s" and "s < 86400"
  shows "datetime_sub (a\<lparr>microsecond := 0\<rparr>) (b\<lparr>microsecond := 0\<rparr>)
         = \<lparr>td_days = d, td_seconds = s, td_microseconds = 0\<rparr>"
proof -
  define secs where
    "secs = (second a + minute a * 60 + hour a * 3600) - (second b + minute b * 60 + hour b * 3600)"
  define k where "k = d - (ordinal a - ordinal b)"
  from assms(1) have e: "secs = s + k * 86400"
    by (simp add: whole_seconds_def secs_def k_def algebra_simps)
  from assms(2,3) have "secs div 86400 = k" and "secs mod 86400 = s"
    unfolding e by simp_all
  then have "ordinal a - ordinal b + secs div 86400 = d" and "secs mod 86400 = s"
    by (simp_all add: k_def)
  then show ?thesis
    by (simp add: datetime_sub_def timedelta_new_def Let_def secs_def)
qed

text \<open>
  Claim C7. The elapsed time is the string of the difference of the current time and the
  start time, each with its microseconds set to zero before the subtraction: whatever the
  microseconds of the two operands are, the result is the same. When the whole seconds of
  the two differ by 2 days, 48 minutes and 58 seconds, the result is
  \<^verbatim>\<open>2 days, 0:48:58\<close>.
\<close>
theorem elapsed_time_whole_seconds:
  "fst (time_delta_from_info E info w) =
     timedelta_str (datetime_sub ((now E (now_calls w))\<lparr>microsecond := 0\<rparr>)
                                 ((start_time info)\<lparr>microsecond := 0\<rparr>))
   \<and> fst (time_delta_from_info (E\<lparr>now := \<lambda>n. (now E n)\<lparr>microsecond := u\<rparr>\<rparr>)
             (info\<lparr>start_time := (start_time info)\<lparr>microsecond := v\<rparr>\<rparr>) w)
       = fst (time_delta_from_info E info w)
   \<and> (whole_seconds (now E (now_calls w)) - whole_seconds (start_time info)
         = 2 * 86400 + 48 * 60 + 58
       \<longrightarrow> fst (time_delta_from_info E info w) = ''2 days, 0:48:58'')"
proof (intro conjI impI)
  show "fst (time_delta_from_info E info w) =
     timedelta_str (datetime_sub ((now E (now_calls w))\<lparr>microsecond := 0\<rparr>)
                                 ((start_time info)\<lparr>microsecond := 0\<rparr>))"
    by (rule time_delta_value)
  show "fst (time_delta_from_info (E\<lparr>now := \<lambda>n. (now E n)\<lparr>microsecond := u\<rparr>\<rparr>)
             (info\<lparr>start_time := (start_time info)\<lparr>microsecond := v\<rparr>\<rparr>) w)
       = fst (time_delta_from_info E info w)"
    by (simp add: time_delta_value)
next
  assume "whole_seconds (now E (now_calls w)) - whole_seconds (start_time info)
         = 2 * 86400 + 48 * 60 + 58"
  then have "whole_seconds (now E (now_calls w)) - whole_seconds (start_time info)
         = 2 * 86400 + 2938" by simp
  from datetime_sub_whole_seconds [OF this]
  have "datetime_sub ((now E (now_calls w))\<lparr>microsecond := 0\<rparr>)
                     ((start_time info)\<lparr>microsecond := 0\<rparr>)
         = \<lparr>td_days = 2, td_seconds = 2938, td_microseconds = 0\<rparr>" by simp
  then show "fst (time_delta_from_info E info w) = ''2 days, 0:48:58''"
    by (simp add: time_delta_value timedelta_str_def str_eval)
qed

theorem elapsed_time_whole_seconds_witness:
  "whole_seconds (now ex_env (now_calls ex_world)) - whole_seconds (start_time ex_info_logdir)
     = 2 * 86400 + 48 * 60 + 58
   \<and> microsecond (now ex_env (now_calls ex_world)) = 0
   \<and> microsecond (start_time ex_info_logdir) = 0
   \<and> fst (time_delta_from_info ex_env ex_info_logdir ex_world) = ''2 days, 0:48:58''"
proof -
  have h: "whole_seconds (now ex_env (now_calls ex_world))
      - whole_seconds (start_time ex_info_logdir) = 2 * 86400 + 48 * 60 + 58"
    by (simp add: whole_seconds_def ex_defs)
  from elapsed_time_whole_seconds [of ex_env ex_info_logdir ex_world 0 0] h
  have r: "fst (time_delta_from_info ex_env ex_info_logdir ex_world) = ''2 days, 0:48:58''"
    by blast
  have "microsecond (now ex_env (now_calls ex_world)) = 0"
    and "microsecond (start_time ex_info_logdir) = 0"
    by (simp_all add: ex_defs)
  with h r show ?thesis by blast
qed

text \<open>Truncating the operands is not truncating the result: from 11:59:59.9 to 12:00:00.2
  the elapsed time is one second, where the exact difference, truncated, is none.\<close>

lemma elapsed_time_truncates_operands_not_result:
  "fst (time_delta_from_info (ex_env\<lparr>now := \<lambda>n. ex_now\<lparr>microsecond := 200000\<rparr>\<rparr>) ex_info_db ex_world)
     = ''0:00:01''
   \<and> timedelta_str (datetime_sub (ex_now\<lparr>microsecond := 200000\<rparr>) (start_time ex_info_db))
     = ''0:00:00.300000''
   \<and> timedelta_str ((datetime_sub (ex_now\<lparr>microsecond := 200000\<rparr>) (start_time ex_info_db))
        \<lparr>td_microseconds := 0\<rparr>) = ''0:00:00''"
  by (simp add: time_delta_value timedelta_str_def datetime_sub_def timedelta_new_def
      str_microseconds_def ex_defs str_eval)

subsection \<open>Launch reactions\<close>

text \<open>With a port, the default height and no message, \<^verbatim>\<open>_display\<close> queries discovery once and
  is the rendering dispatch.\<close>
lemma display_internal_explicit_silent:
  "display_internal E (Some p) None False dh w =
     display_fn (get_context E) p 600 dh (w\<lparr>get_all_calls := Suc (get_all_calls w)\<rparr>)"
proof (cases "filter (\<lambda>i. port i = p) (get_all E (get_all_calls w)) = []")
  case True
  then show ?thesis by (simp add: display_internal_def display_select_def call_get_all_def)
next
  case False
  from py_max_nonempty [OF False, of "\<lambda>x. datetime_key (start_time x)"]
  obtain m where "py_max (\<lambda>x. datetime_key (start_time x))
      (filter (\<lambda>i. port i = p) (get_all E (get_all_calls w))) = Inr m" by blast
  with False show ?thesis
    by (simp add: display_internal_def display_select_def call_get_all_def)
qed

text \<open>
  Claim C1, amended. For every launch that the supervisor answers with \<open>StartReused\<close>, \<^verbatim>\<open>start\<close>
  emits one status line (printed, or put in place of the launching notice) that has the
  port, the pid, the elapsed time since the start and the hint to kill the process by its
  pid, and has no description of the data source; it then dispatches the rendering for the
  port of the instance with height 600 and no display handle.
\<close>
theorem reused_status_line:
  assumes "shlex_split E args_string = Inr parsed_args"
    and "manager_start E parsed_args = StartReused info"
  shows "start E args_string w =
    display_fn (get_context E) (port info) 600 None
      (w\<lparr>out := out w @
           (let message =
              ''Reusing TensorBoard on port '' @ str_int (port info) @ '' (pid ''
              @ str_int (pid info) @ ''), started '' @ fst (time_delta_from_info E info w)
              @ '' ago. (Use '!kill '' @ str_int (pid info) @ ''' to kill it.)''
            in if get_context E = CONTEXT_NONE
               then [Print ''Launching TensorBoard...'', Print message]
               else [Display (Pretty ''Launching TensorBoard...'') True,
                     Update (length (out w)) (Pretty message)]),
         get_all_calls := Suc (get_all_calls w),
         now_calls := Suc (now_calls w)\<rparr>)"
  using assms
  by (cases w)
    (simp add: start_def display_internal_explicit_silent time_delta_from_info_def call_now_def
      print_or_update_def emit_def reusing_message_def Let_def)


theorem reused_status_line_witness:
  "shlex_split (ex_env\<lparr>get_context := CONTEXT_IPYTHON\<rparr>) ''--logdir /tmp/logs''
     = Inr [''--logdir'', ''/tmp/logs'']
   \<and> manager_start (ex_env\<lparr>get_context := CONTEXT_IPYTHON\<rparr>) [''--logdir'', ''/tmp/logs'']
     = StartReused ex_info_logdir
   \<and> start (ex_env\<lparr>get_context := CONTEXT_IPYTHON\<rparr>) ''--logdir /tmp/logs'' ex_world =
      (Inr (),
       \<lparr>out = [Display (Pretty ''Launching TensorBoard...'') True,
               Update 0 (Pretty (''Reusing TensorBoard on port 6006 (pid 4242), ''
                 @ ''started 2 days, 0:48:58 ago. (Use '!kill 4242' to kill it.)'')),
               Display (IFrame ''http://localhost:6006'' 600 ''100%'') False],
        get_all_calls = 1, now_calls = 1\<rparr>)"
proof -
  let ?E = "ex_env\<lparr>get_context := CONTEXT_IPYTHON\<rparr>"
  have a: "shlex_split ?E ''--logdir /tmp/logs'' = Inr [''--logdir'', ''/tmp/logs'']"
    by (simp add: ex_env_def ex_shlex_split_def)
  have b: "manager_start ?E [''--logdir'', ''/tmp/logs''] = StartReused ex_info_logdir"
    by (simp add: ex_env_def ex_manager_start_def)
  have d: "fst (time_delta_from_info ?E ex_info_logdir ex_world) = ''2 days, 0:48:58''"
    by (simp add: time_delta_value timedelta_str_def datetime_sub_def timedelta_new_def
        ex_defs str_eval)
  have p: "port ex_info_logdir = 6006" "pid ex_info_logdir = 4242" "get_context ?E = CONTEXT_IPYTHON"
    "out ex_world = []" "get_all_calls ex_world = 0" "now_calls ex_world = 0"
    by (simp_all add: ex_defs)
  have s: "str_int 6006 = ''6006''" "str_int 4242 = ''4242''" by (simp_all add: str_eval)
  from reused_status_line [OF a b, of ex_world]
  have "start ?E ''--logdir /tmp/logs'' ex_world =
      (Inr (),
       \<lparr>out = [Display (Pretty ''Launching TensorBoard...'') True,
               Update 0 (Pretty (''Reusing TensorBoard on port 6006 (pid 4242), ''
                 @ ''started 2 days, 0:48:58 ago. (Use '!kill 4242' to kill it.)'')),
               Display (IFrame ''http://localhost:6006'' 600 ''100%'') False],
        get_all_calls = 1, now_calls = 1\<rparr>)"
    unfolding d p s
    by (simp add: display_fn_def display_ipython_def emit_def ex_world_def s)
  with a b show ?thesis by blast
qed

text \<open>The status line of a reused instance with logdir \<^verbatim>\<open>/tmp/logs\<close> does not have its
  data source description \<^verbatim>\<open>logdir /tmp/logs\<close>.\<close>
theorem reused_status_line_lacks_data_source:
  "start ex_env ''--logdir /tmp/logs'' ex_world =
      (Inr (),
       \<lparr>out = [Print ''Launching TensorBoard...'',
               Print (''Reusing TensorBoard on port 6006 (pid 4242), ''
                 @ ''started 2 days, 0:48:58 ago. (Use '!kill 4242' to kill it.)''),
               Print ''Please navigate to http://localhost:6006 in a web browser.''],
        get_all_calls = 1, now_calls = 1\<rparr>)
   \<and> data_source_from_info ex_info_logdir = ''logdir /tmp/logs''
   \<and> \<not> sublist ''logdir /tmp/logs''
         (''Reusing TensorBoard on port 6006 (pid 4242), ''
          @ ''started 2 days, 0:48:58 ago. (Use '!kill 4242' to kill it.)'')"
proof -
  have d: "time_delta_from_info ex_env ex_info_logdir w
      = (''2 days, 0:48:58'', w\<lparr>now_calls := Suc (now_calls w)\<rparr>)" for w
    by (simp add: time_delta_from_info_def call_now_def replace_microsecond_0_def
        timedelta_str_def datetime_sub_def timedelta_new_def ex_defs str_eval)
  have s: "str_int 6006 = ''6006''" "str_int 4242 = ''4242''" by (simp_all add: str_eval)
  have p: "port ex_info_logdir = 6006" "pid ex_info_logdir = 4242"
    by (simp_all add: ex_defs)
  have "start ex_env ''--logdir /tmp/logs'' ex_world =
      (Inr (),
       \<lparr>out = [Print ''Launching TensorBoard...'',
               Print (''Reusing TensorBoard on port 6006 (pid 4242), ''
                 @ ''started 2 days, 0:48:58 ago. (Use '!kill 4242' to kill it.)''),
               Print ''Please navigate to http://localhost:6006 in a web browser.''],
        get_all_calls = 1, now_calls = 1\<rparr>)"
    by (simp add: start_def ex_env_def ex_shlex_split_def ex_manager_start_def
        d [unfolded ex_env_def] p s display_internal_explicit_silent reusing_message_def
        print_or_update_def emit_def display_fn_def display_cli_def ex_world_def)
  moreover have "data_source_from_info ex_info_logdir = ''logdir /tmp/logs''"
    by (simp add: data_source_from_info_def ex_defs)
  moreover have "\<not> sublist ''logdir /tmp/logs''
         (''Reusing TensorBoard on port 6006 (pid 4242), ''
          @ ''started 2 days, 0:48:58 ago. (Use '!kill 4242' to kill it.)'')"
    by (simp add: sublist_code(3))
  ultimately show ?thesis by blast
qed

text \<open>
  Claim C5. For a \<open>StartFailed\<close> result \<^verbatim>\<open>start\<close> emits an error message with the exit code,
  followed by the standard error and the standard output, each as \<open>format_stream\<close> renders it:
  nothing for an empty stream, a notice that it could not be read for \<open>None\<close>, and its
  stripped contents under a heading otherwise. For a \<open>StartTimedOut\<close> result the message names
  the pid. In both cases the launching notice and this message are all that is emitted: nothing
  is rendered, and \<^verbatim>\<open>start\<close> returns.
\<close>
theorem failed_and_timed_out_reports:
  "(shlex_split E args_string = Inr parsed_args
      \<and> manager_start E parsed_args = StartFailed exit_code stdout stderr
    \<longrightarrow> start E args_string w =
          (Inr (),
           w\<lparr>out := out w @
             (let message =
                ''ERROR: Failed to launch TensorBoard (exited with '' @ str_int exit_code @ '').''
                @ format_stream ''stderr'' stderr @ format_stream ''stdout'' stdout
              in if get_context E = CONTEXT_NONE
                 then [Print ''Launching TensorBoard...'', Print message]
                 else [Display (Pretty ''Launching TensorBoard...'') True,
                       Update (length (out w)) (Pretty message)])\<rparr>))
   \<and> (shlex_split E args_string' = Inr parsed_args'
      \<and> manager_start E parsed_args' = StartTimedOut pid_v
    \<longrightarrow> start E args_string' w =
          (Inr (),
           w\<lparr>out := out w @
             (let message =
                ''ERROR: Timed out waiting for TensorBoard to start. ''
                @ ''It may still be running as pid '' @ str_int pid_v @ ''.''
              in if get_context E = CONTEXT_NONE
                 then [Print ''Launching TensorBoard...'', Print message]
                 else [Display (Pretty ''Launching TensorBoard...'') True,
                       Update (length (out w)) (Pretty message)])\<rparr>))
   \<and> format_stream name (Some []) = []
   \<and> format_stream name None = [CHR 0x0A] @ ''<could not read '' @ name @ ''>''
   \<and> (s \<noteq> [] \<longrightarrow>
        format_stream name (Some s) = [CHR 0x0A] @ ''Contents of '' @ name @ '':'' @ [CHR 0x0A] @ strip s)"
  by (cases w)
    (simp add: start_def print_or_update_def emit_def failed_message_def timed_out_message_def
      format_stream_def Let_def)

theorem failed_and_timed_out_reports_witness:
  "shlex_split ex_env ''--logdir /missing'' = Inr [''--logdir'', ''/missing'']
   \<and> manager_start ex_env [''--logdir'', ''/missing'']
       = StartFailed 2 None (Some (''E: no such directory'' @ [CHR 0x0A]))
   \<and> start ex_env ''--logdir /missing'' ex_world =
       (Inr (),
        ex_world\<lparr>out := [Print ''Launching TensorBoard...'',
          Print (''ERROR: Failed to launch TensorBoard (exited with 2).'' @ [CHR 0x0A]
                 @ ''Contents of stderr:'' @ [CHR 0x0A] @ ''E: no such directory'' @ [CHR 0x0A]
                 @ ''<could not read stdout>'')]\<rparr>)
   \<and> shlex_split ex_env ''--logdir /slow'' = Inr [''--logdir'', ''/slow'']
   \<and> manager_start ex_env [''--logdir'', ''/slow''] = StartTimedOut 4400
   \<and> start ex_env ''--logdir /slow'' ex_world =
       (Inr (),
        ex_world\<lparr>out := [Print ''Launching TensorBoard...'',
          Print (''ERROR: Timed out waiting for TensorBoard to start. ''
                 @ ''It may still be running as pid 4400.'')]\<rparr>)"
proof -
  have a: "shlex_split ex_env ''--logdir /missing'' = Inr [''--logdir'', ''/missing'']"
    and a': "shlex_split ex_env ''--logdir /slow'' = Inr [''--logdir'', ''/slow'']"
    by (simp_all add: ex_env_def ex_shlex_split_def)
  have b: "manager_start ex_env [''--logdir'', ''/missing'']
       = StartFailed 2 None (Some (''E: no such directory'' @ [CHR 0x0A]))"
    and b': "manager_start ex_env [''--logdir'', ''/slow''] = StartTimedOut 4400"
    by (simp_all add: ex_env_def ex_manager_start_def)
  have c: "get_context ex_env = CONTEXT_NONE" "out ex_world = []"
    by (simp_all add: ex_defs)
  have s: "str_int 2 = ''2''" "str_int 4400 = ''4400''" by (simp_all add: str_eval)
  note th = failed_and_timed_out_reports
    [of ex_env "''--logdir /missing''" "[''--logdir'', ''/missing'']" 2 None
        "Some (''E: no such directory'' @ [CHR 0x0A])" ex_world
        "''--logdir /slow''" "[''--logdir'', ''/slow'']" 4400 "''stdout''"
        "''E: no such directory'' @ [CHR 0x0A]"]
  from th a b have "start ex_env ''--logdir /missing'' ex_world =
       (Inr (),
        ex_world\<lparr>out := [Print ''Launching TensorBoard...'',
          Print (''ERROR: Failed to launch TensorBoard (exited with 2).'' @ [CHR 0x0A]
                 @ ''Contents of stderr:'' @ [CHR 0x0A] @ ''E: no such directory'' @ [CHR 0x0A]
                 @ ''<could not read stdout>'')]\<rparr>)"
    by (simp add: c s format_stream_def strip_def is_space_def)
  moreover from th a' b' have "start ex_env ''--logdir /slow'' ex_world =
       (Inr (),
        ex_world\<lparr>out := [Print ''Launching TensorBoard...'',
          Print (''ERROR: Timed out waiting for TensorBoard to start. ''
                 @ ''It may still be running as pid 4400.'')]\<rparr>)"
    by (simp add: c s)
  ultimately show ?thesis using a a' b b' by blast
qed

text \<open>A result that is none of the four classes always ends in a \<^verbatim>\<open>TypeError\<close>, after the
  launching notice and nothing else.\<close>
lemma unexpected_result_raises:
  assumes "shlex_split E args_string = Inr parsed_args"
    and "manager_start E parsed_args = StartUnexpected obj"
  shows "\<exists>message. start E args_string w =
      (Inl (TypeError message),
       w\<lparr>out := out w @ [if get_context E = CONTEXT_NONE then Print ''Launching TensorBoard...''
                          else Display (Pretty ''Launching TensorBoard...'') True]\<rparr>)"
  using assms
  by (cases w)
    (auto simp add: start_def emit_def unexpected_message_def Let_def
      split: py_object.splits list.splits)

text \<open>When the result is not a tuple, the error says that this is a TensorBoard bug.\<close>
lemma unexpected_result_not_a_tuple:
  assumes "shlex_split E args_string = Inr parsed_args"
    and "manager_start E parsed_args = StartUnexpected (PyOther r)"
  shows "fst (start E args_string w) =
      Inl (TypeError (''Unexpected result from `manager.start`: '' @ r @ ''.'' @ [CHR 0x0A]
                      @ ''This is a TensorBoard bug; please report it.''))"
  using assms
  by (simp add: start_def unexpected_message_def Let_def split: prod.splits)

text \<open>
  Claim C6 asks for an error that identifies a TensorBoard bug for every result that is none
  of the four classes. For a result that is a pair, the operator \<^verbatim>\<open>%\<close> takes the pair as two
  arguments for the one conversion of the message and raises first: \<^verbatim>\<open>start\<close> ends in the
  \<^verbatim>\<open>TypeError\<close> "not all arguments converted during string formatting", which does not mention
  a bug.
\<close>
theorem unexpected_tuple_result_loses_bug_report:
  "shlex_split ex_env ''--logdir /odd'' = Inr [''--logdir'', ''/odd'']
   \<and> manager_start ex_env [''--logdir'', ''/odd''] = StartUnexpected (PyTuple [''1'', ''2''])
   \<and> start ex_env ''--logdir /odd'' ex_world =
       (Inl (TypeError ''not all arguments converted during string formatting''),
        ex_world\<lparr>out := [Print ''Launching TensorBoard...'']\<rparr>)
   \<and> \<not> sublist ''bug'' ''not all arguments converted during string formatting''"
  by (simp add: start_def ex_env_def ex_shlex_split_def ex_manager_start_def
      unexpected_message_def emit_def ex_world_def sublist_code(3))

end
